theory Spec2Isabelle
  imports Complex_Main
begin

section \<open>Strings and labels\<close>

text \<open>
  A Python \<open>str\<close> is a sequence of Unicode code points; the labels of the data set are
  Chinese, so a string is modelled as the list of its code points. Equality, membership in
  a list of literals, the substring test \<open>sub in s\<close> and \<open>str.strip()\<close> are then the
  list operations below.
\<close>

type_synonym pystr = "nat list"

text \<open>\<open>sub in s\<close>: \<open>sub\<close> occurs in \<open>s\<close> as a contiguous block.\<close>

fun starts_with :: "pystr \<Rightarrow> pystr \<Rightarrow> bool" where
  "starts_with [] s = True"
| "starts_with (a # sub) [] = False"
| "starts_with (a # sub) (c # s) = (a = c \<and> starts_with sub s)"

fun str_in :: "pystr \<Rightarrow> pystr \<Rightarrow> bool" where
  "str_in sub [] = (sub = [])"
| "str_in sub (c # s) = (starts_with sub (c # s) \<or> str_in sub s)"

text \<open>The code points for which \<open>str.isspace()\<close> holds; \<open>str.strip()\<close> removes them
  from both ends.\<close>

definition isspace :: "nat \<Rightarrow> bool" where
  "isspace c \<longleftrightarrow> c \<in> set [9, 10, 11, 12, 13, 28, 29, 30, 31, 32, 133, 160, 5760,
     8192, 8193, 8194, 8195, 8196, 8197, 8198, 8199, 8200, 8201, 8202,
     8232, 8233, 8239, 8287, 12288]"

definition strip :: "pystr \<Rightarrow> pystr" where
  "strip s = rev (dropWhile isspace (rev (dropWhile isspace s)))"

text \<open>Land types (column \<open>land_type\<close>): ping-han-di (flat dry land), ti-tian (terrace),
  shan-po-di (hillside), shui-jiao-di (irrigated land), pu-tong-da-peng (ordinary
  greenhouse), zhi-hui-da-peng (smart greenhouse). The source also lists the ordinary
  greenhouse label followed by one space.\<close>

definition ping_han_di :: pystr where "ping_han_di = [24179, 26097, 22320]"
definition ti_tian :: pystr where "ti_tian = [26799, 30000]"
definition shan_po_di :: pystr where "shan_po_di = [23665, 22369, 22320]"
definition shui_jiao_di :: pystr where "shui_jiao_di = [27700, 27975, 22320]"
definition pu_tong_da_peng :: pystr where "pu_tong_da_peng = [26222, 36890, 22823, 26842]"
definition pu_tong_da_peng_sp :: pystr where "pu_tong_da_peng_sp = [26222, 36890, 22823, 26842, 32]"
definition zhi_hui_da_peng :: pystr where "zhi_hui_da_peng = [26234, 24935, 22823, 26842]"

text \<open>Seasons: dan-ji (single season), di-yi-ji (first season), di-er-ji (second season).\<close>

definition dan_ji :: pystr where "dan_ji = [21333, 23395]"
definition di_yi_ji :: pystr where "di_yi_ji = [31532, 19968, 23395]"
definition di_er_ji :: pystr where "di_er_ji = [31532, 20108, 23395]"

text \<open>Crop names: shui-dao (rice); the mushrooms xiang-gu, yang-du-jun, bai-ling-gu,
  yu-huang-gu; the winter vegetables da-bai-cai, bai-luo-bo, hong-luo-bo; xiao-mai (wheat)
  and yu-mi (maize). Crop types contain liang-shi (grain) or shu-cai (vegetable).\<close>

definition shui_dao :: pystr where "shui_dao = [27700, 31291]"
definition xiang_gu :: pystr where "xiang_gu = [39321, 33735]"
definition yang_du_jun :: pystr where "yang_du_jun = [32650, 32922, 33740]"
definition bai_ling_gu :: pystr where "bai_ling_gu = [30333, 28789, 33735]"
definition yu_huang_gu :: pystr where "yu_huang_gu = [27014, 40644, 33735]"
definition da_bai_cai :: pystr where "da_bai_cai = [22823, 30333, 33756]"
definition bai_luo_bo :: pystr where "bai_luo_bo = [30333, 33821, 21340]"
definition hong_luo_bo :: pystr where "hong_luo_bo = [32418, 33821, 21340]"
definition xiao_mai :: pystr where "xiao_mai = [23567, 40614]"
definition yu_mi :: pystr where "yu_mi = [29577, 31859]"
definition liang_shi :: pystr where "liang_shi = [31918, 39135]"
definition shu_cai :: pystr where "shu_cai = [34092, 33756]"

definition mushroom_names :: "pystr list" where
  "mushroom_names = [xiang_gu, yang_du_jun, bai_ling_gu, yu_huang_gu]"

definition winter_vegetable_names :: "pystr list" where
  "winter_vegetable_names = [da_bai_cai, bai_luo_bo, hong_luo_bo]"

lemmas label_defs =
  ping_han_di_def ti_tian_def shan_po_di_def shui_jiao_di_def pu_tong_da_peng_def
  pu_tong_da_peng_sp_def zhi_hui_da_peng_def dan_ji_def di_yi_ji_def di_er_ji_def
  shui_dao_def xiang_gu_def yang_du_jun_def bai_ling_gu_def yu_huang_gu_def
  da_bai_cai_def bai_luo_bo_def hong_luo_bo_def xiao_mai_def yu_mi_def
  liang_shi_def shu_cai_def mushroom_names_def winter_vegetable_names_def

section \<open>Data set\<close>

text \<open>One row of the crop sheet, of the statistics sheet and of the land sheet.\<close>

record crop_row =
  crop_no :: int
  crop_name :: pystr
  crop_type :: pystr
  crop_is_legume :: bool

record stat_row =
  land_type :: pystr
  season :: pystr
  crop_id :: int
  yield_per_mu :: real
  cost_per_mu :: real
  price_avg :: real
  profit_per_mu :: real

text \<open>A Python \<open>dict\<close> keeps its keys in insertion order; assigning to a key that is
  present replaces the value in place.\<close>

type_synonym ('k, 'v) pydict = "('k \<times> 'v) list"

fun dict_set :: "('k, 'v) pydict \<Rightarrow> 'k \<Rightarrow> 'v \<Rightarrow> ('k, 'v) pydict" where
  "dict_set [] k v = [(k, v)]"
| "dict_set ((k', v') # d) k v = (if k' = k then (k, v) # d else (k', v') # dict_set d k v)"

definition dict_get :: "('k, 'v) pydict \<Rightarrow> 'k \<Rightarrow> 'v option" where
  "dict_get d k = map_of d k"

definition dict_keys :: "('k, 'v) pydict \<Rightarrow> 'k list" where
  "dict_keys d = map fst d"

section \<open>Eligibility predicates of the three variants\<close>

subsection \<open>Base variant (Question1_modeling.py)\<close>

text \<open>The entry of \<open>self.crops\<close> built by \<open>_process_data\<close>.\<close>

record q1_crop =
  q1_name :: pystr
  q1_type :: pystr
  q1_is_legume :: bool
  q1_is_grain :: bool
  q1_is_rice :: bool
  q1_is_vegetable :: bool
  q1_is_mushroom :: bool
  q1_is_winter_vegetable :: bool
  q1_is_regular_vegetable :: bool

definition q1_crop_info :: "crop_row \<Rightarrow> q1_crop" where
  "q1_crop_info r =
     (let cname = crop_name r; ctype = crop_type r;
          is_grain = (str_in liang_shi ctype \<and> cname \<noteq> shui_dao);
          is_rice = (cname = shui_dao);
          is_vegetable = str_in shu_cai ctype;
          is_mushroom = (cname \<in> set mushroom_names);
          is_winter_vegetable = (cname \<in> set winter_vegetable_names)
      in \<lparr> q1_name = cname, q1_type = ctype, q1_is_legume = crop_is_legume r,
            q1_is_grain = is_grain, q1_is_rice = is_rice, q1_is_vegetable = is_vegetable,
            q1_is_mushroom = is_mushroom, q1_is_winter_vegetable = is_winter_vegetable,
            q1_is_regular_vegetable = (is_vegetable \<and> \<not> is_winter_vegetable) \<rparr>)"

fun q1_build_crops :: "(int, q1_crop) pydict \<Rightarrow> crop_row list \<Rightarrow> (int, q1_crop) pydict" where
  "q1_build_crops d [] = d"
| "q1_build_crops d (r # rs) = q1_build_crops (dict_set d (crop_no r) (q1_crop_info r)) rs"

text \<open>\<open>_is_valid_planting_combination\<close>. An inner \<open>if/elif\<close> chain without a matching
  season falls through to the final \<open>return False\<close>.\<close>

definition q1_is_valid_planting_combination :: "pystr \<Rightarrow> pystr \<Rightarrow> q1_crop \<Rightarrow> bool" where
  "q1_is_valid_planting_combination lt s crop_info =
     (if lt \<in> set [ping_han_di, ti_tian, shan_po_di] then
        (s = dan_ji \<and> q1_is_grain crop_info)
      else if lt = shui_jiao_di then
        (if s = dan_ji then q1_is_rice crop_info
         else if s = di_yi_ji then q1_is_regular_vegetable crop_info
         else if s = di_er_ji then q1_is_winter_vegetable crop_info
         else False)
      else if lt \<in> set [pu_tong_da_peng, pu_tong_da_peng_sp] then
        (if s = di_yi_ji then q1_is_regular_vegetable crop_info
         else if s = di_er_ji then q1_is_mushroom crop_info
         else False)
      else if lt = zhi_hui_da_peng then
        (if s \<in> set [di_yi_ji, di_er_ji] then q1_is_regular_vegetable crop_info
         else False)
      else False)"

subsection \<open>Strict variant (Question2_modeling.py)\<close>

text \<open>The entry of \<open>self.crops\<close> after \<open>_classify_crops_strictly\<close> has added its flags.\<close>

record q2_crop =
  q2_name :: pystr
  q2_type :: pystr
  q2_is_legume :: bool
  q2_is_rice :: bool
  q2_is_grain_non_rice :: bool
  q2_is_winter_vegetable :: bool
  q2_is_regular_vegetable :: bool
  q2_is_mushroom :: bool

definition q2_crop_info :: "crop_row \<Rightarrow> q2_crop" where
  "q2_crop_info r =
     (let cname = crop_name r; ctype = crop_type r
      in \<lparr> q2_name = cname, q2_type = ctype, q2_is_legume = crop_is_legume r,
            q2_is_rice = (cname = shui_dao),
            q2_is_grain_non_rice = (str_in liang_shi ctype \<and> cname \<noteq> shui_dao),
            q2_is_winter_vegetable = (cname \<in> set winter_vegetable_names),
            q2_is_regular_vegetable =
              (str_in shu_cai ctype \<and> cname \<notin> set winter_vegetable_names),
            q2_is_mushroom = (cname \<in> set mushroom_names) \<rparr>)"

fun q2_build_crops :: "(int, q2_crop) pydict \<Rightarrow> crop_row list \<Rightarrow> (int, q2_crop) pydict" where
  "q2_build_crops d [] = d"
| "q2_build_crops d (r # rs) = q2_build_crops (dict_set d (crop_no r) (q2_crop_info r)) rs"

text \<open>\<open>_is_valid_strict_combination\<close>, given the entry \<open>self.crops[crop_id]\<close>.\<close>

definition q2_combination_rule :: "pystr \<Rightarrow> pystr \<Rightarrow> q2_crop \<Rightarrow> bool" where
  "q2_combination_rule lt s crop_info =
     (if lt \<in> set [ping_han_di, ti_tian, shan_po_di] then
        (s = dan_ji \<and> q2_is_grain_non_rice crop_info)
      else if lt = shui_jiao_di then
        (if s = dan_ji then q2_is_rice crop_info
         else if s = di_yi_ji then q2_is_regular_vegetable crop_info
         else if s = di_er_ji then q2_is_winter_vegetable crop_info
         else False)
      else if lt \<in> set [pu_tong_da_peng, pu_tong_da_peng_sp] then
        (if s = di_yi_ji then q2_is_regular_vegetable crop_info
         else if s = di_er_ji then q2_is_mushroom crop_info
         else False)
      else if lt = zhi_hui_da_peng then
        (s \<in> set [di_yi_ji, di_er_ji] \<and> q2_is_regular_vegetable crop_info)
      else False)"

subsection \<open>Advanced variant (Question3_modeling.py)\<close>

datatype category = Rice | Grain | WinterVegetable | Mushroom | Vegetable | Other

text \<open>\<open>_classify_crop_category\<close>: the first matching branch decides.\<close>

definition classify_crop_category :: "pystr \<Rightarrow> pystr \<Rightarrow> category" where
  "classify_crop_category cname ctype =
     (if cname = shui_dao then Rice
      else if str_in liang_shi ctype \<and> cname \<noteq> shui_dao then Grain
      else if cname \<in> set winter_vegetable_names then WinterVegetable
      else if cname \<in> set mushroom_names then Mushroom
      else if str_in shu_cai ctype \<and> cname \<notin> set winter_vegetable_names then Vegetable
      else Other)"

record q3_crop =
  q3_name :: pystr
  q3_type :: pystr
  q3_is_legume :: bool
  q3_category :: category

definition q3_crop_info :: "crop_row \<Rightarrow> q3_crop" where
  "q3_crop_info r =
     \<lparr> q3_name = crop_name r, q3_type = crop_type r, q3_is_legume = crop_is_legume r,
       q3_category = classify_crop_category (crop_name r) (crop_type r) \<rparr>"

fun q3_build_crops :: "(int, q3_crop) pydict \<Rightarrow> crop_row list \<Rightarrow> (int, q3_crop) pydict" where
  "q3_build_crops d [] = d"
| "q3_build_crops d (r # rs) = q3_build_crops (dict_set d (crop_no r) (q3_crop_info r)) rs"

text \<open>\<open>_is_valid_combination\<close>, given the entry \<open>self.crops[crop_id]\<close>.\<close>

definition q3_combination_rule :: "pystr \<Rightarrow> pystr \<Rightarrow> q3_crop \<Rightarrow> bool" where
  "q3_combination_rule lt s crop_info =
     (let cat = q3_category crop_info; cname = q3_name crop_info
      in if lt \<in> set [ping_han_di, ti_tian, shan_po_di] then
           (s = dan_ji \<and> cat = Grain \<and> cname \<noteq> shui_dao)
         else if lt = shui_jiao_di then
           (if s = dan_ji then cname = shui_dao
            else if s = di_yi_ji then
              (cat = Vegetable \<and> cname \<notin> set winter_vegetable_names)
            else if s = di_er_ji then cname \<in> set winter_vegetable_names
            else False)
         else if lt \<in> set [pu_tong_da_peng, pu_tong_da_peng_sp] then
           (if s = di_yi_ji then
              (cat = Vegetable \<and> cname \<notin> set winter_vegetable_names)
            else if s = di_er_ji then cat = Mushroom
            else False)
         else if lt = zhi_hui_da_peng then
           (s \<in> set [di_yi_ji, di_er_ji] \<and> cat = Vegetable
            \<and> cname \<notin> set winter_vegetable_names)
         else False)"

section \<open>Option catalog\<close>

subsection \<open>Base catalog\<close>

text \<open>An entry of \<open>valid_planting_options\<close>: the fields of the statistics row and, under
  \<open>**crop_info\<close>, the entry of \<open>self.crops\<close>.\<close>

record q1_option =
  o1_land_type :: pystr
  o1_season :: pystr
  o1_crop_id :: int
  o1_crop_name :: pystr
  o1_yield_per_mu :: real
  o1_cost_per_mu :: real
  o1_price_avg :: real
  o1_profit_per_mu :: real
  o1_crop_info :: q1_crop

definition q1_make_option :: "stat_row \<Rightarrow> q1_crop \<Rightarrow> q1_option" where
  "q1_make_option row crop_info =
     \<lparr> o1_land_type = land_type row, o1_season = season row, o1_crop_id = crop_id row,
       o1_crop_name = q1_name crop_info, o1_yield_per_mu = yield_per_mu row,
       o1_cost_per_mu = cost_per_mu row, o1_price_avg = price_avg row,
       o1_profit_per_mu = profit_per_mu row, o1_crop_info = crop_info \<rparr>"

text \<open>The loop of \<open>_process_data\<close> over the statistics rows: a row whose crop is unknown
  is skipped (\<open>continue\<close>), a row whose triple passes the predicate is appended.\<close>

fun q1_valid_planting_options ::
  "(int, q1_crop) pydict \<Rightarrow> q1_option list \<Rightarrow> stat_row list \<Rightarrow> q1_option list" where
  "q1_valid_planting_options crops acc [] = acc"
| "q1_valid_planting_options crops acc (row # rows) =
     (case dict_get crops (crop_id row) of
        None \<Rightarrow> q1_valid_planting_options crops acc rows
      | Some crop_info \<Rightarrow>
          if q1_is_valid_planting_combination (land_type row) (season row) crop_info
          then q1_valid_planting_options crops (acc @ [q1_make_option row crop_info]) rows
          else q1_valid_planting_options crops acc rows)"

text \<open>\<open>viable_options\<close>: the options of crops with a positive expected sale, sorted by
  \<open>profit_per_mu\<close>, largest first (Python's sort is stable, also with \<open>reverse=True\<close>).\<close>

definition q1_viable_options ::
  "(int, real) pydict \<Rightarrow> q1_option list \<Rightarrow> q1_option list" where
  "q1_viable_options expected_sales valid_planting_options =
     sort_key (\<lambda>opt. - o1_profit_per_mu opt)
       (filter (\<lambda>opt. case dict_get expected_sales (o1_crop_id opt) of
                        None \<Rightarrow> False | Some v \<Rightarrow> v > 0)
          valid_planting_options)"

text \<open>The spec's words for the catalog: a row is kept iff its crop is known and its triple
  passes the predicate.\<close>

definition q1_kept :: "(int, q1_crop) pydict \<Rightarrow> stat_row \<Rightarrow> bool" where
  "q1_kept crops row \<longleftrightarrow>
     (\<exists>crop_info. dict_get crops (crop_id row) = Some crop_info \<and>
        q1_is_valid_planting_combination (land_type row) (season row) crop_info)"

subsection \<open>Strict and advanced catalog\<close>

text \<open>\<open>_is_valid_strict_combination\<close> and \<open>_is_valid_combination\<close> take the crop id and
  read \<open>self.crops[crop_id]\<close>, which raises \<open>KeyError\<close> for an unknown id.\<close>

datatype py_error = KeyError

definition q2_is_valid_strict_combination ::
  "(int, q2_crop) pydict \<Rightarrow> pystr \<Rightarrow> pystr \<Rightarrow> int \<Rightarrow> py_error + bool" where
  "q2_is_valid_strict_combination crops lt s cid =
     (case dict_get crops cid of
        None \<Rightarrow> Inl KeyError
      | Some crop_info \<Rightarrow> Inr (q2_combination_rule lt s crop_info))"

definition q3_is_valid_combination ::
  "(int, q3_crop) pydict \<Rightarrow> pystr \<Rightarrow> pystr \<Rightarrow> int \<Rightarrow> py_error + bool" where
  "q3_is_valid_combination crops lt s cid =
     (case dict_get crops cid of
        None \<Rightarrow> Inl KeyError
      | Some crop_info \<Rightarrow> Inr (q3_combination_rule lt s crop_info))"

text \<open>An entry of \<open>valid_options\<close> (the same keys in both variants).\<close>

record option_row =
  opt_land_type :: pystr
  opt_season :: pystr
  opt_crop_id :: int
  opt_crop_name :: pystr
  base_yield :: real
  base_cost :: real
  base_price :: real
  base_profit :: real

definition make_option :: "stat_row \<Rightarrow> pystr \<Rightarrow> pystr \<Rightarrow> option_row" where
  "make_option row lt cname =
     \<lparr> opt_land_type = lt, opt_season = season row, opt_crop_id = crop_id row,
       opt_crop_name = cname, base_yield = yield_per_mu row, base_cost = cost_per_mu row,
       base_price = price_avg row, base_profit = profit_per_mu row \<rparr>"

text \<open>The loops of \<open>_classify_crops_strictly\<close> and \<open>_get_valid_planting_options\<close>: the
  land type is stripped first; \<open>crop_id in self.crops and ...\<close> evaluates the predicate
  only for a known crop, where it does not raise.\<close>

fun q2_valid_options ::
  "(int, q2_crop) pydict \<Rightarrow> option_row list \<Rightarrow> stat_row list \<Rightarrow> option_row list" where
  "q2_valid_options crops acc [] = acc"
| "q2_valid_options crops acc (row # rows) =
     (let lt = strip (land_type row) in
      case dict_get crops (crop_id row) of
        None \<Rightarrow> q2_valid_options crops acc rows
      | Some crop_info \<Rightarrow>
          if q2_is_valid_strict_combination crops lt (season row) (crop_id row) = Inr True
          then q2_valid_options crops (acc @ [make_option row lt (q2_name crop_info)]) rows
          else q2_valid_options crops acc rows)"

fun q3_valid_options ::
  "(int, q3_crop) pydict \<Rightarrow> option_row list \<Rightarrow> stat_row list \<Rightarrow> option_row list" where
  "q3_valid_options crops acc [] = acc"
| "q3_valid_options crops acc (row # rows) =
     (let lt = strip (land_type row) in
      case dict_get crops (crop_id row) of
        None \<Rightarrow> q3_valid_options crops acc rows
      | Some crop_info \<Rightarrow>
          if q3_is_valid_combination crops lt (season row) (crop_id row) = Inr True
          then q3_valid_options crops (acc @ [make_option row lt (q3_name crop_info)]) rows
          else q3_valid_options crops acc rows)"

definition q2_kept :: "(int, q2_crop) pydict \<Rightarrow> stat_row \<Rightarrow> bool" where
  "q2_kept crops row \<longleftrightarrow>
     crop_id row \<in> set (dict_keys crops) \<and>
     q2_is_valid_strict_combination crops (strip (land_type row)) (season row) (crop_id row)
       = Inr True"

definition q3_kept :: "(int, q3_crop) pydict \<Rightarrow> stat_row \<Rightarrow> bool" where
  "q3_kept crops row \<longleftrightarrow>
     crop_id row \<in> set (dict_keys crops) \<and>
     q3_is_valid_combination crops (strip (land_type row)) (season row) (crop_id row)
       = Inr True"

subsection \<open>A small data set\<close>

definition ex_crop_rows :: "crop_row list" where
  "ex_crop_rows =
     [\<lparr> crop_no = 1, crop_name = xiao_mai, crop_type = liang_shi, crop_is_legume = False \<rparr>,
      \<lparr> crop_no = 16, crop_name = shui_dao, crop_type = liang_shi, crop_is_legume = False \<rparr>]"

definition ex_stats :: "stat_row list" where
  "ex_stats =
     [\<lparr> land_type = ping_han_di, season = dan_ji, crop_id = 1, yield_per_mu = 800,
        cost_per_mu = 450, price_avg = 3, profit_per_mu = 1950 \<rparr>,
      \<lparr> land_type = ping_han_di, season = dan_ji, crop_id = 16, yield_per_mu = 500,
        cost_per_mu = 680, price_avg = 7, profit_per_mu = 2820 \<rparr>,
      \<lparr> land_type = ping_han_di, season = dan_ji, crop_id = 99, yield_per_mu = 1,
        cost_per_mu = 1, price_avg = 1, profit_per_mu = 0 \<rparr>]"

text \<open>huang-gua (cucumber), a vegetable of the data set.\<close>

definition huang_gua :: pystr where "huang_gua = [40644, 29916]"


section \<open>Linear programs as the builders assemble them\<close>

text \<open>
  The key of a decision variable is (land name, year, season, crop id). The variables
  are the area variables \<open>x[key]\<close> (continuous, lower bound 0) and the binary variables:
  the irrigated-land choice \<open>use_rice / y_water\<close> per (land, year), the base variant's
  \<open>planting_binary\<close> per key, the strict variant's \<open>crop_count\<close> per (crop, year) and the
  advanced variant's \<open>z_crop\<close> per (year, crop).
\<close>

type_synonym varkey = "pystr \<times> int \<times> pystr \<times> int"


datatype lpvar =
    Plant varkey
  | UseRice pystr int
  | PlantBinary varkey
  | CropCount int int
  | ZCrop int int

text \<open>An affine expression: coefficient-variable terms and a constant. A constraint
  relates two of them, as \<open>prob += lhs <= rhs\<close> does.\<close>

datatype linexpr = LinExpr "(real \<times> lpvar) list" real

datatype sense = LE | GE | EQ

datatype lp_constraint = Constraint linexpr sense linexpr




fun eval_expr :: "(lpvar \<Rightarrow> real) \<Rightarrow> linexpr \<Rightarrow> real" where
  "eval_expr a (LinExpr ts c) = sum_list (map (\<lambda>(k, v). k * a v) ts) + c"

fun satisfies :: "(lpvar \<Rightarrow> real) \<Rightarrow> lp_constraint \<Rightarrow> bool" where
  "satisfies a (Constraint l LE r) = (eval_expr a l \<le> eval_expr a r)"
| "satisfies a (Constraint l GE r) = (eval_expr a l \<ge> eval_expr a r)"
| "satisfies a (Constraint l EQ r) = (eval_expr a l = eval_expr a r)"

text \<open>The bounds of the variables: an area is at least 0, a binary is 0 or 1.\<close>

fun within_bounds :: "(lpvar \<Rightarrow> real) \<Rightarrow> lpvar \<Rightarrow> bool" where
  "within_bounds a (Plant k) = (0 \<le> a (Plant k))"
| "within_bounds a v = (a v = 0 \<or> a v = 1)"

text \<open>A feasible solution respects every bound and satisfies every constraint.\<close>

definition feasible :: "(lpvar \<Rightarrow> real) \<Rightarrow> lp_constraint list \<Rightarrow> bool" where
  "feasible a cs \<longleftrightarrow> (\<forall>v. within_bounds a v) \<and> list_all (satisfies a) cs"




record land_info =
  l_type :: pystr
  l_area :: real

record land_row =
  lr_name :: pystr
  lr_type :: pystr
  lr_area :: real

text \<open>The base variant stores the land type as read; the strict and the advanced variant
  store \<open>row[...].strip()\<close>.\<close>

fun q1_load_lands :: "(pystr, land_info) pydict \<Rightarrow> land_row list \<Rightarrow> (pystr, land_info) pydict" where
  "q1_load_lands d [] = d"
| "q1_load_lands d (r # rs) =
     q1_load_lands (dict_set d (lr_name r) \<lparr> l_type = lr_type r, l_area = lr_area r \<rparr>) rs"

fun load_lands_stripped :: "(pystr, land_info) pydict \<Rightarrow> land_row list \<Rightarrow> (pystr, land_info) pydict" where
  "load_lands_stripped d [] = d"
| "load_lands_stripped d (r # rs) =
     load_lands_stripped
       (dict_set d (lr_name r) \<lparr> l_type = strip (lr_type r), l_area = lr_area r \<rparr>) rs"


section \<open>The base variant's model (create_model, _add_fixed_constraints)\<close>






















section \<open>Rotation and indicator constraints of the strict and the advanced variant\<close>









section \<open>Small data sets for the models\<close>















section \<open>Properties of the catalog and of the eligibility predicates\<close>

lemma q1_valid_planting_options_eq:
  "q1_valid_planting_options crops acc stats =
     acc @ map (\<lambda>row. q1_make_option row (the (dict_get crops (crop_id row))))
             (filter (q1_kept crops) stats)"
  by (induction stats arbitrary: acc) (auto simp: q1_kept_def split: option.splits)

lemma q1_sound: "opt \<in> set (q1_valid_planting_options crops [] stats) \<Longrightarrow>
  dict_get crops (o1_crop_id opt) = Some (o1_crop_info opt) \<and>
  q1_is_valid_planting_combination (o1_land_type opt) (o1_season opt) (o1_crop_info opt)"
  by (auto simp: q1_valid_planting_options_eq q1_kept_def q1_make_option_def)

lemma q1_viable_subset:
  "set (q1_viable_options es vs) \<subseteq> set vs"
  by (auto simp: q1_viable_options_def)

lemma dict_get_None_iff: "dict_get d k = None \<longleftrightarrow> k \<notin> set (dict_keys d)"
  by (simp add: dict_get_def dict_keys_def map_of_eq_None_iff)

lemma q2_valid_options_eq:
  "q2_valid_options crops acc stats =
     acc @ map (\<lambda>row. make_option row (strip (land_type row))
                        (q2_name (the (dict_get crops (crop_id row)))))
             (filter (q2_kept crops) stats)"
proof (induction stats arbitrary: acc)
  case Nil
  then show ?case by simp
next
  case (Cons row rows)
  show ?case
  proof (cases "dict_get crops (crop_id row)")
    case None
    then have "\<not> q2_kept crops row"
      by (simp add: q2_kept_def dict_get_None_iff)
    with None Cons show ?thesis by simp
  next
    case (Some crop_info)
    then have "crop_id row \<in> set (dict_keys crops)"
      using dict_get_None_iff [of crops "crop_id row"] by simp
    with Some Cons show ?thesis by (simp add: q2_kept_def Let_def)
  qed
qed

lemma q3_valid_options_eq:
  "q3_valid_options crops acc stats =
     acc @ map (\<lambda>row. make_option row (strip (land_type row))
                        (q3_name (the (dict_get crops (crop_id row)))))
             (filter (q3_kept crops) stats)"
proof (induction stats arbitrary: acc)
  case Nil
  then show ?case by simp
next
  case (Cons row rows)
  show ?case
  proof (cases "dict_get crops (crop_id row)")
    case None
    then have "\<not> q3_kept crops row"
      by (simp add: q3_kept_def dict_get_None_iff)
    with None Cons show ?thesis by simp
  next
    case (Some crop_info)
    then have "crop_id row \<in> set (dict_keys crops)"
      using dict_get_None_iff [of crops "crop_id row"] by simp
    with Some Cons show ?thesis by (simp add: q3_kept_def Let_def)
  qed
qed

text \<open>
  Claim C1 (catalog soundness). In each of the three variants every option of the catalog
  built from the planting statistics passes the eligibility predicate on its own
  (land type, season, crop) triple, and the catalog holds exactly one option for each
  statistics row whose crop is known and whose triple passes the predicate, in the order of
  the rows. The strict and the advanced variant store and test the stripped land type. The
  base variant's \<open>viable_options\<close> (positive expected sale, sorted) is sound as well.
\<close>

theorem catalog_soundness:
  "(\<forall>opt \<in> set (q1_valid_planting_options crops1 [] stats).
      \<exists>crop_info. dict_get crops1 (o1_crop_id opt) = Some crop_info \<and>
        q1_is_valid_planting_combination (o1_land_type opt) (o1_season opt) crop_info)
   \<and> (\<forall>opt \<in> set (q1_viable_options expected_sales
                       (q1_valid_planting_options crops1 [] stats)).
      \<exists>crop_info. dict_get crops1 (o1_crop_id opt) = Some crop_info \<and>
        q1_is_valid_planting_combination (o1_land_type opt) (o1_season opt) crop_info)
   \<and> q1_valid_planting_options crops1 [] stats =
       map (\<lambda>row. q1_make_option row (the (dict_get crops1 (crop_id row))))
         (filter (q1_kept crops1) stats)
   \<and> (\<forall>opt \<in> set (q2_valid_options crops2 [] stats).
        q2_is_valid_strict_combination crops2 (opt_land_type opt) (opt_season opt)
          (opt_crop_id opt) = Inr True)
   \<and> q2_valid_options crops2 [] stats =
       map (\<lambda>row. make_option row (strip (land_type row))
                    (q2_name (the (dict_get crops2 (crop_id row)))))
         (filter (q2_kept crops2) stats)
   \<and> (\<forall>opt \<in> set (q3_valid_options crops3 [] stats).
        q3_is_valid_combination crops3 (opt_land_type opt) (opt_season opt)
          (opt_crop_id opt) = Inr True)
   \<and> q3_valid_options crops3 [] stats =
       map (\<lambda>row. make_option row (strip (land_type row))
                    (q3_name (the (dict_get crops3 (crop_id row)))))
         (filter (q3_kept crops3) stats)"
proof -
  have a: "\<forall>opt \<in> set (q1_valid_planting_options crops1 [] stats).
      \<exists>crop_info. dict_get crops1 (o1_crop_id opt) = Some crop_info \<and>
        q1_is_valid_planting_combination (o1_land_type opt) (o1_season opt) crop_info"
    using q1_sound by blast
  have b: "\<forall>opt \<in> set (q1_viable_options expected_sales
                       (q1_valid_planting_options crops1 [] stats)).
      \<exists>crop_info. dict_get crops1 (o1_crop_id opt) = Some crop_info \<and>
        q1_is_valid_planting_combination (o1_land_type opt) (o1_season opt) crop_info"
    using a q1_viable_subset by blast
  have c: "\<forall>opt \<in> set (q2_valid_options crops2 [] stats).
        q2_is_valid_strict_combination crops2 (opt_land_type opt) (opt_season opt)
          (opt_crop_id opt) = Inr True"
    by (auto simp: q2_valid_options_eq q2_kept_def make_option_def)
  have d: "\<forall>opt \<in> set (q3_valid_options crops3 [] stats).
        q3_is_valid_combination crops3 (opt_land_type opt) (opt_season opt)
          (opt_crop_id opt) = Inr True"
    by (auto simp: q3_valid_options_eq q3_kept_def make_option_def)
  show ?thesis
    using a b c d
    by (simp add: q1_valid_planting_options_eq q2_valid_options_eq q3_valid_options_eq)
qed

text \<open>A data set with one eligible row, one ineligible row (rice on flat dry land) and one
  row of an unknown crop: each catalog keeps exactly the eligible row.\<close>

lemma ex_q1_crops:
  "q1_build_crops [] ex_crop_rows =
    [(1, q1_crop_info \<lparr> crop_no = 1, crop_name = xiao_mai, crop_type = liang_shi, crop_is_legume = False \<rparr>),
     (16, q1_crop_info \<lparr> crop_no = 16, crop_name = shui_dao, crop_type = liang_shi, crop_is_legume = False \<rparr>)]"
  by (simp add: ex_crop_rows_def)

theorem catalog_soundness_witness:
  "length (q1_valid_planting_options (q1_build_crops [] ex_crop_rows) [] ex_stats) = 1
   \<and> q1_is_valid_planting_combination ping_han_di dan_ji
        (q1_crop_info \<lparr> crop_no = 1, crop_name = xiao_mai, crop_type = liang_shi,
                        crop_is_legume = False \<rparr>)
   \<and> length (q1_viable_options [(1, 5)]
        (q1_valid_planting_options (q1_build_crops [] ex_crop_rows) [] ex_stats)) = 1
   \<and> length (q2_valid_options (q2_build_crops [] ex_crop_rows) [] ex_stats) = 1
   \<and> q2_is_valid_strict_combination (q2_build_crops [] ex_crop_rows) ping_han_di dan_ji 1
        = Inr True
   \<and> length (q3_valid_options (q3_build_crops [] ex_crop_rows) [] ex_stats) = 1
   \<and> q3_is_valid_combination (q3_build_crops [] ex_crop_rows) ping_han_di dan_ji 1
        = Inr True"
  using catalog_soundness [of "q1_build_crops [] ex_crop_rows" ex_stats "[(1, 5)]"
      "q2_build_crops [] ex_crop_rows" "q3_build_crops [] ex_crop_rows"]
  apply (simp add: ex_crop_rows_def ex_stats_def dict_get_def dict_keys_def
      q1_kept_def q2_kept_def q3_kept_def q1_crop_info_def q2_crop_info_def q3_crop_info_def
      q1_is_valid_planting_combination_def q2_is_valid_strict_combination_def
      q3_is_valid_combination_def q2_combination_rule_def q3_combination_rule_def
      classify_crop_category_def q1_viable_options_def q1_make_option_def
      strip_def isspace_def label_defs Let_def)
  done










text \<open>
  Claim C3 (whitespace normalisation). The strict and the advanced variant strip every
  land-type label before it reaches the predicate. The base variant never strips: it only
  lists the ordinary-greenhouse label with one trailing space. So there a smart-greenhouse
  or an irrigated-land label with a trailing space is ineligible although its stripped
  form is eligible.
\<close>

theorem q1_label_whitespace_failing_input:
  "q1_is_valid_planting_combination zhi_hui_da_peng di_yi_ji
     (q1_crop_info \<lparr> crop_no = 20, crop_name = huang_gua, crop_type = shu_cai,
                     crop_is_legume = False \<rparr>)
   \<and> strip (zhi_hui_da_peng @ [32]) = zhi_hui_da_peng
   \<and> \<not> q1_is_valid_planting_combination (zhi_hui_da_peng @ [32]) di_yi_ji
     (q1_crop_info \<lparr> crop_no = 20, crop_name = huang_gua, crop_type = shu_cai,
                     crop_is_legume = False \<rparr>)
   \<and> q1_is_valid_planting_combination shui_jiao_di dan_ji
     (q1_crop_info \<lparr> crop_no = 16, crop_name = shui_dao, crop_type = liang_shi,
                     crop_is_legume = False \<rparr>)
   \<and> strip (shui_jiao_di @ [32]) = shui_jiao_di
   \<and> \<not> q1_is_valid_planting_combination (shui_jiao_di @ [32]) dan_ji
     (q1_crop_info \<lparr> crop_no = 16, crop_name = shui_dao, crop_type = liang_shi,
                     crop_is_legume = False \<rparr>)"
  by (simp add: q1_is_valid_planting_combination_def q1_crop_info_def strip_def isspace_def
      label_defs huang_gua_def Let_def)

text \<open>In the strict and the advanced variant the label is stripped where it is read, and
  stripping twice is stripping once: the catalog is the same whether or not the labels of
  the statistics rows carry surrounding whitespace.\<close>

lemma dropWhile_id: "xs = [] \<or> \<not> P (hd xs) \<Longrightarrow> dropWhile P xs = xs"
  by (cases xs) auto

lemma strip_idem: "strip (strip s) = strip s"
proof -
  define t where "t = dropWhile isspace s"
  define u where "u = dropWhile isspace (rev t)"
  have t: "t = [] \<or> \<not> isspace (hd t)"
    unfolding t_def by (metis hd_dropWhile)
  have u: "u = [] \<or> \<not> isspace (hd u)"
    unfolding u_def by (metis hd_dropWhile)
  have "rev u = [] \<or> \<not> isspace (hd (rev u))"
  proof (cases "t = []")
    case True
    then show ?thesis by (simp add: u_def)
  next
    case False
    with t have nsp: "\<not> isspace (hd t)" by simp
    from False have "rev t = butlast (rev t) @ [hd t]"
      by (metis append_butlast_last_id last_rev rev_is_Nil_conv)
    then have "u \<noteq> [] \<and> last u = hd t"
      unfolding u_def using nsp
      by (metis dropWhile_append3 dropWhile_eq_Nil_conv last_snoc in_set_conv_decomp)
    then show ?thesis using nsp by (simp add: hd_rev)
  qed
  then have 1: "dropWhile isspace (rev u) = rev u" by (rule dropWhile_id)
  have 2: "dropWhile isspace u = u" using u by (rule dropWhile_id)
  show ?thesis
    unfolding strip_def using 1 2 by (simp add: t_def [symmetric] u_def [symmetric])
qed

lemma q2_valid_options_strip:
  "q2_valid_options crops acc (map (\<lambda>r. r\<lparr>land_type := strip (land_type r)\<rparr>) stats) =
   q2_valid_options crops acc stats"
  by (induction stats arbitrary: acc)
     (simp_all add: strip_idem make_option_def Let_def split: option.splits)

lemma q3_valid_options_strip:
  "q3_valid_options crops acc (map (\<lambda>r. r\<lparr>land_type := strip (land_type r)\<rparr>) stats) =
   q3_valid_options crops acc stats"
  by (induction stats arbitrary: acc)
     (simp_all add: strip_idem make_option_def Let_def split: option.splits)

section \<open>Feasible solutions of the models\<close>




lemma feasible_sat: "feasible a cs \<Longrightarrow> c \<in> set cs \<Longrightarrow> satisfies a c"
  by (simp add: feasible_def list_all_iff)































end
